theory Spec2Isabelle
  imports Complex_Main "HOL-Library.Sublist" "HOL-Library.AList"
begin

section \<open>Values and their textual form\<close>

text \<open>
  Cell values of the table and values decoded from a model reply. The pipeline observes a
  value in two ways only: \<open>isinstance(value, str)\<close> and \<open>str(value)\<close>. Strings, integers,
  booleans and \<open>None\<close> are modelled directly; every other value (a float, a list, a nested
  dict, a timestamp, NaN) is carried as \<open>POther t\<close> where \<open>t\<close> is the text \<open>str\<close> returns
  for it.
\<close>

datatype pyval = PStr string | PInt int | PBool bool | PNone | POther string

definition digit_char :: "nat \<Rightarrow> char" where
  "digit_char d = char_of (48 + d)"

function show_nat :: "nat \<Rightarrow> string" where
  "show_nat n = (if n < 10 then [digit_char n] else show_nat (n div 10) @ [digit_char (n mod 10)])"
  by pat_completeness auto
termination
  by (relation "measure id") auto

declare show_nat.simps [simp del]

definition show_int :: "int \<Rightarrow> string" where
  "show_int i = (if i < 0 then CHR ''-'' # show_nat (nat (- i)) else show_nat (nat i))"

fun py_str :: "pyval \<Rightarrow> string" where
  "py_str (PStr s) = s"
| "py_str (PInt i) = show_int i"
| "py_str (PBool b) = (if b then ''True'' else ''False'')"
| "py_str PNone = ''None''"
| "py_str (POther t) = t"

text \<open>A Python dict with string keys: an association list in insertion order with distinct
  keys; \<open>d[k] = v\<close> is \<open>AList.update k v d\<close> (an existing key keeps its position, a new key
  goes last) and \<open>d.get(k, default)\<close> reads \<open>map_of d k\<close>.\<close>

type_synonym pydict = "(string \<times> pyval) list"

definition dict_get :: "pydict \<Rightarrow> string \<Rightarrow> pyval \<Rightarrow> pyval" where
  "dict_get d k dflt = (case map_of d k of None \<Rightarrow> dflt | Some v \<Rightarrow> v)"

section \<open>Placeholder engine (utils/prompt\_helper.py)\<close>

text \<open>
  The class \<open>\w\<close> of a Python \<open>str\<close> pattern: letters, digits and the underscore. A \<open>char\<close>
  is read as the code point of the same number (0 to 255), so the alphanumeric code points
  of the Latin-1 block are included as Python's Unicode matching has them.
\<close>

definition word_char :: "char \<Rightarrow> bool" where
  "word_char c = (let n = (of_char c :: nat) in
     (48 \<le> n \<and> n \<le> 57) \<or> (65 \<le> n \<and> n \<le> 90) \<or> n = 95 \<or> (97 \<le> n \<and> n \<le> 122) \<or>
     n = 170 \<or> n = 178 \<or> n = 179 \<or> n = 181 \<or> n = 185 \<or> n = 186 \<or>
     (188 \<le> n \<and> n \<le> 190) \<or> (192 \<le> n \<and> n \<le> 214) \<or> (216 \<le> n \<and> n \<le> 246) \<or>
     248 \<le> n)"

text \<open>
  \<open>re.findall(r'\{@(\w+)\}', prompt)\<close>: the captured names of the non-overlapping matches,
  scanning left to right. At a position the pattern matches exactly when the text reads
  \<open>{@\<close>, then a non-empty maximal run of word characters, then \<open>}\<close> (giving back characters
  of the greedy run cannot help: the character after a shorter run is a word character).
  After a match the scan resumes behind the closing brace, otherwise one character on.
\<close>

function findall_placeholders :: "string \<Rightarrow> string list" where
  "findall_placeholders [] = []"
| "findall_placeholders (c # s) =
     (if c = CHR ''{'' \<and> s \<noteq> [] \<and> hd s = CHR ''@'' then
        (let name = takeWhile word_char (tl s); rest = dropWhile word_char (tl s)
         in if name \<noteq> [] \<and> rest \<noteq> [] \<and> hd rest = CHR ''}''
            then name # findall_placeholders (tl rest)
            else findall_placeholders s)
      else findall_placeholders s)"
  by pat_completeness auto
termination
proof (relation "measure length")
  fix c :: char and s name rest
  assume "rest = dropWhile word_char (tl s)" "name \<noteq> [] \<and> rest \<noteq> [] \<and> hd rest = CHR ''}''"
  have "length (tl (dropWhile word_char (tl s))) \<le> length s"
    by (metis diff_le_self le_trans length_dropWhile_le length_tl)
  then show "(tl rest, c # s) \<in> measure length"
    using \<open>rest = dropWhile word_char (tl s)\<close> by simp
qed auto

text \<open>
  \<open>text.replace(old, new)\<close>: every non-overlapping occurrence of \<open>old\<close>, found left to
  right, is replaced; the inserted text is not scanned again. With an empty \<open>old\<close> Python
  inserts \<open>new\<close> before every character and at the end.
\<close>

function str_replace :: "string \<Rightarrow> string \<Rightarrow> string \<Rightarrow> string" where
  "str_replace old new [] = (if old = [] then new else [])"
| "str_replace old new (c # s) =
     (if old = [] then new @ c # str_replace old new s
      else if prefix old (c # s) then new @ str_replace old new (drop (length old) (c # s))
      else c # str_replace old new s)"
  by pat_completeness auto
termination
proof (relation "measure (\<lambda>(old, new, s). length s)")
  fix old new :: string and c :: char and s :: string
  assume "old \<noteq> []"
  then have "0 < length old" by simp
  then show "((old, new, drop (length old) (c # s)), (old, new, c # s))
      \<in> measure (\<lambda>(old, new, s). length s)"
    by simp
qed auto

definition placeholder :: "string \<Rightarrow> string" where
  "placeholder column_name = ''{@'' @ column_name @ ''}''"

text \<open>The loop of \<open>replace_placeholders\<close>: one \<open>replace\<close> of the running result per match
  found in the original prompt, in the order of the matches.\<close>

fun replace_loop :: "pydict \<Rightarrow> string list \<Rightarrow> string \<Rightarrow> string" where
  "replace_loop row_data [] result = result"
| "replace_loop row_data (column_name # matches) result =
     replace_loop row_data matches
       (str_replace (placeholder column_name) (py_str (dict_get row_data column_name (PStr ''''))) result)"

definition replace_placeholders :: "string \<Rightarrow> pydict \<Rightarrow> string" where
  "replace_placeholders prompt row_data = replace_loop row_data (findall_placeholders prompt) prompt"

definition extract_placeholders :: "string \<Rightarrow> string list" where
  "extract_placeholders prompt = findall_placeholders prompt"

text \<open>
  Templates in parsed form, used to state what substitution achieves: literal text, and
  placeholders whose name is a non-empty run of word characters. Literal text may contain
  braces, but not the two characters \<open>{@\<close> that open a placeholder, and it does not end
  with \<open>{\<close>, so that no placeholder opening arises where two pieces meet (\<open>lit_ok\<close>).
  \<open>render\<close> gives the template text, \<open>subst_tok\<close> the text that literal, single-pass
  substitution puts in the place of a token.
\<close>

datatype tok = Lit string | Ph string

fun render_tok :: "tok \<Rightarrow> string" where
  "render_tok (Lit s) = s"
| "render_tok (Ph x) = placeholder x"

definition render :: "tok list \<Rightarrow> string" where
  "render toks = concat (map render_tok toks)"

fun lit_ok :: "string \<Rightarrow> bool" where
  "lit_ok [] = True"
| "lit_ok [c] = (c \<noteq> CHR ''{'')"
| "lit_ok (c # d # s) = ((c \<noteq> CHR ''{'' \<or> d \<noteq> CHR ''@'') \<and> lit_ok (d # s))"

fun wf_tok :: "tok \<Rightarrow> bool" where
  "wf_tok (Lit s) = lit_ok s"
| "wf_tok (Ph x) = (x \<noteq> [] \<and> list_all word_char x)"

definition lookup_text :: "pydict \<Rightarrow> string \<Rightarrow> string" where
  "lookup_text row_data x = py_str (dict_get row_data x (PStr ''''))"

fun subst_tok :: "pydict \<Rightarrow> tok \<Rightarrow> string" where
  "subst_tok row_data (Lit s) = s"
| "subst_tok row_data (Ph x) = lookup_text row_data x"

fun ph_names :: "tok list \<Rightarrow> string list" where
  "ph_names [] = []"
| "ph_names (Lit s # ts) = ph_names ts"
| "ph_names (Ph x # ts) = x # ph_names ts"

fun resolve_tok :: "pydict \<Rightarrow> string list \<Rightarrow> tok \<Rightarrow> tok" where
  "resolve_tok row_data names (Lit s) = Lit s"
| "resolve_tok row_data names (Ph y) =
     (if y \<in> set names then Lit (lookup_text row_data y) else Ph y)"

section \<open>Binary64 arithmetic of the cost estimate\<close>

text \<open>
  Python's \<open>float\<close> is IEEE 754 binary64. A finite float is modelled by the rational number
  it denotes; every operation computes the exact result and rounds it to the nearest
  representable number, ties to the even significand. The sign of a zero is not tracked:
  nothing in the program observes it.
\<close>

datatype pyfloat = Finite rat | Infinity bool | NaN

function ilog2 :: "int \<Rightarrow> int" where
  "ilog2 n = (if n < 2 then 0 else 1 + ilog2 (n div 2))"
  by pat_completeness auto
termination
  by (relation "measure nat") auto

declare ilog2.simps [simp del]

definition pow2 :: "int \<Rightarrow> rat" where
  "pow2 k = (if 0 \<le> k then 2 ^ nat k else 1 / 2 ^ nat (- k))"

text \<open>For \<open>x > 0\<close>: the integer \<open>k\<close> with \<open>2^k \<le> x < 2^(k+1)\<close>. From 1 on it is the
  binary logarithm of the integer part; below 1 it is minus the least \<open>j\<close> with
  \<open>1 / x \<le> 2^j\<close>.\<close>

definition floor_log2 :: "rat \<Rightarrow> int" where
  "floor_log2 x = (if 1 \<le> x then ilog2 \<lfloor>x\<rfloor> else - (ilog2 (\<lceil>1 / x\<rceil> - 1) + 1))"

definition round_half_even :: "rat \<Rightarrow> int" where
  "round_half_even q = (let f = \<lfloor>q\<rfloor>; d = q - of_int f
     in if d < 1 / 2 then f else if 1 / 2 < d then f + 1 else if even f then f else f + 1)"

text \<open>Rounding a rational to binary64: 53 significant bits, exponent of the last place at
  least \<open>-1074\<close> (subnormal numbers), overflow to infinity when the rounded magnitude
  reaches \<open>2^1024\<close>.\<close>

definition round_binary64 :: "rat \<Rightarrow> pyfloat" where
  "round_binary64 x =
     (if x = 0 then Finite 0
      else let a = \<bar>x\<bar>;
               q = max (floor_log2 a) (- 1022) - 52;
               r = of_int (round_half_even (a / pow2 q)) * pow2 q
           in if r \<noteq> 0 \<and> 1024 \<le> floor_log2 r then Infinity (x < 0)
              else Finite (if x < 0 then - r else r))"

fun float_mul :: "pyfloat \<Rightarrow> pyfloat \<Rightarrow> pyfloat" where
  "float_mul (Finite a) (Finite b) = round_binary64 (a * b)"
| "float_mul (Finite a) (Infinity s) = (if a = 0 then NaN else Infinity (s \<noteq> (a < 0)))"
| "float_mul (Infinity s) (Finite b) = (if b = 0 then NaN else Infinity (s \<noteq> (b < 0)))"
| "float_mul (Infinity s) (Infinity t) = Infinity (s \<noteq> t)"
| "float_mul NaN _ = NaN"
| "float_mul _ NaN = NaN"

fun float_add :: "pyfloat \<Rightarrow> pyfloat \<Rightarrow> pyfloat" where
  "float_add (Finite a) (Finite b) = round_binary64 (a + b)"
| "float_add (Finite a) (Infinity s) = Infinity s"
| "float_add (Infinity s) (Finite b) = Infinity s"
| "float_add (Infinity s) (Infinity t) = (if s = t then Infinity s else NaN)"
| "float_add NaN _ = NaN"
| "float_add _ NaN = NaN"

section \<open>Exceptions\<close>

datatype exn =
    ValueError string
  | IndexError
  | TypeError
  | AttributeError
  | ZeroDivisionError
  | OverflowError
  | RecursionError
  | APIError string

text \<open>\<open>a / b\<close> on Python integers: the correctly rounded quotient; it raises when the
  divisor is zero or the quotient is too large for a float.\<close>

definition int_truediv :: "int \<Rightarrow> int \<Rightarrow> exn + pyfloat" where
  "int_truediv a b =
     (if b = 0 then Inl ZeroDivisionError
      else case round_binary64 (of_int a / of_int b) of
             Finite r \<Rightarrow> Inr (Finite r)
           | _ \<Rightarrow> Inl OverflowError)"

section \<open>Model client adapter (services/processing.py)\<close>

text \<open>What \<open>json.loads\<close> returns: a dict for a JSON object, any other value otherwise.\<close>

datatype parsed = PDict pydict | PNonDict pyval

text \<open>The outcomes of \<open>json.loads(text)\<close>: the decoded value, \<open>JSONDecodeError\<close>, or
  another exception (\<open>RecursionError\<close> on deeply nested text).\<close>

datatype loads_result = Decoded parsed | JSONDecodeError | Raises exn

record processing_result =
  response :: parsed
  prompt_tokens :: int
  completion_tokens :: int
  total_tokens :: int
  result_model :: string

text \<open>A chat-completion request as \<open>process_item\<close> builds it. The remaining arguments of
  the call (\<open>response_format = json_object\<close>, \<open>temperature = 0.7\<close>, \<open>max_tokens = 1000\<close>) are
  the same constants in every request.\<close>

record request =
  req_model :: string
  req_system :: string
  req_user :: string

text \<open>The completion the remote service returns: the message content of the first choice
  (absent when the model sent no text), the usage counts and the model name.\<close>

record completion =
  content :: "string option"
  usage_prompt_tokens :: int
  usage_completion_tokens :: int
  usage_total_tokens :: int
  completion_model :: string

text \<open>
  What lies outside the repository is a parameter of the model:
  \<^item> \<open>getenv_api_key\<close>: the value of \<open>os.getenv("OPENAI_API_KEY")\<close>;
  \<^item> \<open>create\<close>: \<open>client.chat.completions.create\<close>; the outcome may depend on the requests
    made before (the first argument) and on the request; \<open>Inl\<close> is the exception it raises;
  \<^item> \<open>json_loads\<close>: \<open>json.loads\<close>.
\<close>

record env =
  getenv_api_key :: "string option"
  create :: "request list \<Rightarrow> request \<Rightarrow> exn + completion"
  json_loads :: "string \<Rightarrow> loads_result"

text \<open>\<open>OpenAIProcessingService.__init__\<close>: the service is represented by its API key.\<close>

definition new_service :: "env \<Rightarrow> string option \<Rightarrow> exn + string" where
  "new_service e api_key =
     (let key = (case api_key of
                   Some k \<Rightarrow> if k \<noteq> [] then Some k else getenv_api_key e
                 | None \<Rightarrow> getenv_api_key e)
      in case key of
           None \<Rightarrow> Inl (ValueError ''OPENAI_API_KEY not found in environment'')
         | Some k \<Rightarrow> if k = [] then Inl (ValueError ''OPENAI_API_KEY not found in environment'')
                     else Inr k)"

definition system_message :: string where
  "system_message = ''You are an AI assistant for data processing. \<newline>'' @
     ''You must respond with a valid JSON object containing the requested fields.\<newline>'' @
     ''Do not include any text outside the JSON object.''"

fun join :: "string \<Rightarrow> string list \<Rightarrow> string" where
  "join sep [] = []"
| "join sep [x] = x"
| "join sep (x # y # ys) = x @ sep @ join sep (y # ys)"

definition build_request :: "string \<Rightarrow> string list \<Rightarrow> string \<Rightarrow> request" where
  "build_request prompt output_fields model =
     (let fields_description = join '', '' (map (\<lambda>f. CHR 0x22 # f @ [CHR 0x22]) output_fields);
          user_message = prompt @ ''\<newline>\<newline>Respond with a JSON object containing these fields: ''
                           @ fields_description
      in \<lparr>req_model = model, req_system = system_message, req_user = user_message\<rparr>)"

text \<open>\<open>process_item\<close>, with the list of the requests made so far passed in and returned
  extended by this call. The \<open>except\<close> clause catches \<open>JSONDecodeError\<close> only: any other
  exception of the decoder propagates, as does \<open>TypeError\<close> when the content is absent.\<close>

definition process_item ::
  "env \<Rightarrow> request list \<Rightarrow> string \<Rightarrow> string list \<Rightarrow> string \<Rightarrow> (exn + processing_result) \<times> request list" where
  "process_item e calls prompt output_fields model =
     (let req = build_request prompt output_fields model
      in case create e calls req of
           Inl err \<Rightarrow> (Inl err, calls @ [req])
         | Inr resp \<Rightarrow>
             (case content resp of
                None \<Rightarrow> (Inl TypeError, calls @ [req])
              | Some text \<Rightarrow>
                  (case (case json_loads e text of
                           Decoded v \<Rightarrow> Inr v
                         | JSONDecodeError \<Rightarrow> Inr (PDict [(''raw_response'', PStr text)])
                         | Raises err \<Rightarrow> Inl err) of
                     Inl err \<Rightarrow> (Inl err, calls @ [req])
                   | Inr parsed_response \<Rightarrow>
                       (Inr \<lparr>response = parsed_response,
                             prompt_tokens = usage_prompt_tokens resp,
                             completion_tokens = usage_completion_tokens resp,
                             total_tokens = usage_total_tokens resp,
                             result_model = completion_model resp\<rparr>,
                        calls @ [req]))))"

definition pricing :: "(string \<times> pyfloat \<times> pyfloat) list" where
  "pricing =
     [(''gpt-4o-mini'', round_binary64 (15 / 100000), round_binary64 (6 / 10000)),
      (''gpt-4o'', round_binary64 (25 / 10000), round_binary64 (1 / 100)),
      (''gpt-4-turbo'', round_binary64 (1 / 100), round_binary64 (3 / 100))]"

definition model_pricing :: "string \<Rightarrow> pyfloat \<times> pyfloat" where
  "model_pricing model =
     (case map_of pricing model of
        Some rates \<Rightarrow> rates
      | None \<Rightarrow> the (map_of pricing ''gpt-4o-mini''))"

definition estimate_cost :: "int \<Rightarrow> int \<Rightarrow> string \<Rightarrow> exn + pyfloat" where
  "estimate_cost n_prompt n_completion model =
     (case int_truediv n_prompt 1000 of
        Inl err \<Rightarrow> Inl err
      | Inr p \<Rightarrow>
          (case int_truediv n_completion 1000 of
             Inl err \<Rightarrow> Inl err
           | Inr c \<Rightarrow>
               (let input_cost = float_mul p (fst (model_pricing model));
                    output_cost = float_mul c (snd (model_pricing model))
                in Inr (float_add input_cost output_cost))))"

section \<open>Step pipeline (app.py)\<close>

text \<open>\<open>str.isspace\<close> on the code points below 256, for \<open>str.strip()\<close>.\<close>

definition py_isspace :: "char \<Rightarrow> bool" where
  "py_isspace c = (let n = (of_char c :: nat) in
     (9 \<le> n \<and> n \<le> 13) \<or> (28 \<le> n \<and> n \<le> 32) \<or> n = 133 \<or> n = 160)"

definition py_strip :: "string \<Rightarrow> string" where
  "py_strip s = rev (dropWhile py_isspace (rev (dropWhile py_isspace s)))"

text \<open>\<open>s.split(sep)\<close> for a one-character separator: the empty text gives one empty
  piece.\<close>

fun py_split :: "char \<Rightarrow> string \<Rightarrow> string list" where
  "py_split sep [] = [[]]"
| "py_split sep (c # s) =
     (if c = sep then [] # py_split sep s
      else (case py_split sep s of
              x # xs \<Rightarrow> (c # x) # xs
            | [] \<Rightarrow> [[c]]))"

text \<open>A processing step as the application keeps it: the dict with the keys \<open>prompt\<close>,
  \<open>output_fields\<close> (the comma-separated text of the input box) and \<open>model\<close>.\<close>

record step =
  step_prompt :: string
  step_output_fields :: string
  step_model :: string

text \<open>
  The table: the column names in order, and one dict per row from column name to cell.
  Row labels are the positions \<open>0, 1, \<dots>\<close> (the index \<open>read_excel\<close> gives), so \<open>iloc\<close> and
  \<open>at\<close> address the same row.
\<close>

record dataframe =
  columns :: "string list"
  rows :: "pydict list"

definition nan :: pyval where
  "nan = POther ''nan''"

text \<open>\<open>df.iloc[i].to_dict()\<close>; out of range it raises.\<close>

definition iloc_to_dict :: "dataframe \<Rightarrow> nat \<Rightarrow> exn + pydict" where
  "iloc_to_dict df i = (if i < length (rows df) then Inr (rows df ! i) else Inl IndexError)"

text \<open>
  \<open>df.at[i, col] = v\<close> for an existing row \<open>i\<close>: an existing column has the one cell
  replaced; a new column is appended, with NaN in every other row. (The pipeline only
  writes rows that \<open>iloc\<close> has read before.)
\<close>

definition at_set :: "dataframe \<Rightarrow> nat \<Rightarrow> string \<Rightarrow> pyval \<Rightarrow> dataframe" where
  "at_set df i col v =
     (if col \<in> set (columns df)
      then df\<lparr>rows := (rows df)[i := AList.update col v (rows df ! i)]\<rparr>
      else \<lparr>columns = columns df @ [col],
            rows = (map (AList.update col nan) (rows df))[i := AList.update col v (rows df ! i)]\<rparr>)"

text \<open>The part of \<open>st.session_state\<close> the pipeline writes: the token totals (prompt,
  completion) and the estimated cost.\<close>

record session =
  session_total_tokens :: "int \<times> int"
  session_estimated_cost :: pyfloat

definition skipped :: "step \<Rightarrow> bool" where
  "skipped s = (step_prompt s = [] \<or> step_output_fields s = [])"

definition stored_text :: "pyval \<Rightarrow> pyval" where
  "stored_text v = (case v of PStr s \<Rightarrow> PStr s | _ \<Rightarrow> PStr (py_str v))"

text \<open>The loop over \<open>result.response.items()\<close>: each field becomes the column \<open>AI_\<close> plus
  its name; the table receives the text of the value, \<open>row_data\<close> the value itself.\<close>

fun add_ai_columns :: "pydict \<Rightarrow> nat \<Rightarrow> dataframe \<Rightarrow> pydict \<Rightarrow> dataframe \<times> pydict" where
  "add_ai_columns [] row_idx result_df row_data = (result_df, row_data)"
| "add_ai_columns ((field, v) # items) row_idx result_df row_data =
     add_ai_columns items row_idx
       (at_set result_df row_idx (''AI_'' @ field) (stored_text v))
       (AList.update (''AI_'' @ field) v row_data)"

text \<open>
  The loop over the steps for one row. The state is the table, \<open>row_data\<close> and the two
  token totals; the requests made so far are threaded through. An exception ends the
  loop: nothing of the state is returned with it.
\<close>

type_synonym row_state = "dataframe \<times> pydict \<times> int \<times> int"

fun process_steps ::
  "env \<Rightarrow> step list \<Rightarrow> nat \<Rightarrow> row_state \<Rightarrow> request list \<Rightarrow> (exn + row_state) \<times> request list" where
  "process_steps e [] row_idx st calls = (Inr st, calls)"
| "process_steps e (s # steps) row_idx (result_df, row_data, tp, tc) calls =
     (if skipped s then process_steps e steps row_idx (result_df, row_data, tp, tc) calls
      else
        (let formatted_prompt = replace_placeholders (step_prompt s) row_data;
             output_fields = map py_strip (py_split CHR '','' (step_output_fields s))
         in case process_item e calls formatted_prompt output_fields (step_model s) of
              (Inl err, calls') \<Rightarrow> (Inl err, calls')
            | (Inr result, calls') \<Rightarrow>
                (case response result of
                   PNonDict v \<Rightarrow> (Inl AttributeError, calls')
                 | PDict items \<Rightarrow>
                     (case add_ai_columns items row_idx result_df row_data of
                        (result_df', row_data') \<Rightarrow>
                          process_steps e steps row_idx
                            (result_df', row_data', tp + prompt_tokens result,
                             tc + completion_tokens result) calls'))))"

text \<open>The loop over \<open>range(rows_to_process)\<close>.\<close>

fun process_rows ::
  "env \<Rightarrow> step list \<Rightarrow> nat list \<Rightarrow> dataframe \<times> int \<times> int \<Rightarrow> request list
     \<Rightarrow> (exn + dataframe \<times> int \<times> int) \<times> request list" where
  "process_rows e steps [] st calls = (Inr st, calls)"
| "process_rows e steps (row_idx # idxs) (result_df, tp, tc) calls =
     (case iloc_to_dict result_df row_idx of
        Inl err \<Rightarrow> (Inl err, calls)
      | Inr row_data \<Rightarrow>
          (case process_steps e steps row_idx (result_df, row_data, tp, tc) calls of
             (Inl err, calls') \<Rightarrow> (Inl err, calls')
           | (Inr (result_df', row_data', tp', tc'), calls') \<Rightarrow>
               process_rows e steps idxs (result_df', tp', tc') calls'))"

text \<open>
  \<open>process_dataframe\<close>. The result is what the caller receives (the table, or the
  exception that propagates), the session state and the requests made. Progress bar and
  status text are display only and left out.
\<close>

definition process_dataframe ::
  "env \<Rightarrow> session \<Rightarrow> request list \<Rightarrow> dataframe \<Rightarrow> step list \<Rightarrow> bool
     \<Rightarrow> (exn + dataframe) \<times> session \<times> request list" where
  "process_dataframe e sess calls df steps preview_only =
     (case new_service e None of
        Inl err \<Rightarrow> (Inr df, sess, calls)
      | Inr service \<Rightarrow>
          (let rows_to_process = (if preview_only then 1 else length (rows df))
           in case process_rows e steps [0..<rows_to_process] (df, 0, 0) calls of
                (Inl err, calls') \<Rightarrow> (Inl err, sess, calls')
              | (Inr (result_df, tp, tc), calls') \<Rightarrow>
                  (let sess' = sess\<lparr>session_total_tokens := (tp, tc)\<rparr>
                   in case estimate_cost tp tc
                             (if steps \<noteq> [] then step_model (hd steps) else ''gpt-4o-mini'') of
                        Inl err \<Rightarrow> (Inl err, sess', calls')
                      | Inr cost \<Rightarrow>
                          (Inr result_df, sess'\<lparr>session_estimated_cost := cost\<rparr>, calls'))))"

section \<open>A scripted environment for concrete runs\<close>

text \<open>The remote service answers the \<open>n\<close>-th request with the \<open>n\<close>-th scripted outcome,
  and a credential is present. The decoder is \<open>json.loads\<close> on the reply texts used below:
  the two JSON objects, text that is no JSON (such as \<open>not json\<close>), and 2000 opening
  brackets, on which \<open>json.loads\<close> raises \<open>RecursionError\<close>.\<close>

definition reply :: "string \<Rightarrow> int \<Rightarrow> int \<Rightarrow> exn + completion" where
  "reply text p c = Inr \<lparr>content = Some text, usage_prompt_tokens = p,
     usage_completion_tokens = c, usage_total_tokens = p + c,
     completion_model = ''gpt-4o-mini-2024-07-18''\<rparr>"

definition scripted_loads :: "string \<Rightarrow> loads_result" where
  "scripted_loads text =
     (case map_of
        [([CHR ''{'', CHR 0x22] @ ''sentiment'' @ [CHR 0x22] @ '': '' @ [CHR 0x22] @ ''positive''
            @ [CHR 0x22, CHR ''}''],
          PDict [(''sentiment'', PStr ''positive'')]),
         ([CHR ''{'', CHR 0x22] @ ''score'' @ [CHR 0x22] @ '': 7}'',
          PDict [(''score'', PInt 7)])] text of
        Some v \<Rightarrow> Decoded v
      | None \<Rightarrow> if text = replicate 2000 CHR ''['' then Raises RecursionError
                else JSONDecodeError)"

definition scripted :: "(exn + completion) list \<Rightarrow> env" where
  "scripted outcomes =
     \<lparr>getenv_api_key = Some ''sk-test'',
      create = (\<lambda>calls req. if length calls < length outcomes then outcomes ! length calls
                             else Inl (APIError ''connection error'')),
      json_loads = scripted_loads\<rparr>"

definition sentiment_reply :: "exn + completion" where
  "sentiment_reply =
     reply ([CHR ''{'', CHR 0x22] @ ''sentiment'' @ [CHR 0x22] @ '': '' @ [CHR 0x22] @ ''positive'' @ [CHR 0x22, CHR ''}'']) 1000 1000"

definition score_reply :: "exn + completion" where
  "score_reply = reply ([CHR ''{'', CHR 0x22] @ ''score'' @ [CHR 0x22] @ '': 7}'') 40 8"

definition session0 :: session where
  "session0 = \<lparr>session_total_tokens = (0, 0), session_estimated_cost = Finite 0\<rparr>"

text \<open>A table of two reviews and two steps, the second using a column the first
  generates.\<close>

definition review_table :: dataframe where
  "review_table = \<lparr>columns = [''CustomerReview''],
     rows = [[(''CustomerReview'', PStr ''Great product'')],
             [(''CustomerReview'', PStr ''Bad'')]]\<rparr>"

definition sentiment_step :: step where
  "sentiment_step = \<lparr>step_prompt = ''Analyze: {@CustomerReview}'',
     step_output_fields = ''sentiment'', step_model = ''gpt-4o-mini''\<rparr>"

definition score_step :: step where
  "score_step = \<lparr>step_prompt = ''Rate {@AI_sentiment}'',
     step_output_fields = ''score'', step_model = ''gpt-4o''\<rparr>"

text \<open>A table that already carries a generated column, as a downloaded result that is
  uploaded again does.\<close>

definition enriched_table :: dataframe where
  "enriched_table = \<lparr>columns = [''CustomerReview'', ''AI_sentiment''],
     rows = [[(''CustomerReview'', PStr ''Great product''), (''AI_sentiment'', PStr ''old'')]]\<rparr>"

text \<open>The frame of a run: the table \<open>df'\<close> has the rows and columns of \<open>df\<close>, and every cell
  of a column whose name does not start with \<open>AI_\<close> is as in \<open>df\<close>.\<close>

definition same_outside_ai :: "dataframe \<Rightarrow> dataframe \<Rightarrow> bool" where
  "same_outside_ai df df' \<longleftrightarrow>
     length (rows df') = length (rows df) \<and>
     set (columns df) \<subseteq> set (columns df') \<and>
     (\<forall>r c. r < length (rows df) \<and> \<not> prefix ''AI_'' c \<longrightarrow>
        map_of (rows df' ! r) c = map_of (rows df ! r) c)"

section \<open>Properties of the placeholder engine\<close>

lemma not_word_brace [simp]:
  "\<not> word_char CHR ''}''" "\<not> word_char CHR ''{''" "\<not> word_char CHR ''@''"
  by (simp_all add: word_char_def)

lemma lit_ok_no_brace: "CHR ''{'' \<notin> set s \<Longrightarrow> lit_ok s"
  by (induction s rule: lit_ok.induct) auto

lemma lit_ok_append: "lit_ok s \<Longrightarrow> lit_ok t \<Longrightarrow> lit_ok (s @ t)"
proof (induction s rule: lit_ok.induct)
  case 1
  then show ?case by simp
next
  case (2 c)
  then show ?case by (cases t) auto
next
  case (3 c d s)
  then show ?case by simp
qed

lemma lit_ok_no_opening: "\<not> lit_ok (ps @ CHR ''{'' # CHR ''@'' # ss)"
proof (induction ps rule: lit_ok.induct)
  case 1
  show ?case by simp
next
  case (2 c)
  show ?case by simp
next
  case (3 c d s)
  then show ?case by simp
qed

lemma lit_ok_no_placeholder: "lit_ok s \<Longrightarrow> \<not> sublist (placeholder X) s"
  using lit_ok_no_opening by (auto simp: sublist_def placeholder_def)

lemma findall_skip:
  "lit_ok s \<Longrightarrow> findall_placeholders (s @ rest) = findall_placeholders rest"
  by (induction s rule: lit_ok.induct) auto

lemma takeWhile_name:
  "list_all word_char x \<Longrightarrow> takeWhile word_char (x @ CHR ''}'' # rest) = x"
  by (induction x) auto

lemma dropWhile_name:
  "list_all word_char x \<Longrightarrow> dropWhile word_char (x @ CHR ''}'' # rest) = CHR ''}'' # rest"
  by (induction x) auto

lemma findall_ph:
  "x \<noteq> [] \<Longrightarrow> list_all word_char x \<Longrightarrow>
   findall_placeholders (placeholder x @ rest) = x # findall_placeholders rest"
  by (simp add: placeholder_def takeWhile_name dropWhile_name)

lemma findall_render:
  "list_all wf_tok toks \<Longrightarrow> findall_placeholders (render toks) = ph_names toks"
proof (induction toks)
  case Nil
  then show ?case by (simp add: render_def)
next
  case (Cons t ts)
  then show ?case
    by (cases t) (simp_all add: render_def findall_skip findall_ph)
qed

lemma replace_skip:
  "lit_ok s \<Longrightarrow>
   str_replace (placeholder x) new (s @ rest) = s @ str_replace (placeholder x) new rest"
proof (induction s rule: lit_ok.induct)
  case 1
  show ?case by simp
next
  case (2 c)
  then show ?case by (simp add: placeholder_def)
next
  case (3 c d s)
  have ne: "placeholder x \<noteq> []"
    by (simp add: placeholder_def)
  from 3 have np: "\<not> prefix (placeholder x) (c # d # s @ rest)"
    by (auto simp: placeholder_def)
  from 3 have "str_replace (placeholder x) new ((d # s) @ rest) =
      (d # s) @ str_replace (placeholder x) new rest"
    by simp
  with np ne show ?case by simp
qed

lemma prefix_placeholder:
  "list_all word_char x \<Longrightarrow> list_all word_char y \<Longrightarrow>
   prefix (x @ ''}'') (y @ CHR ''}'' # rest) \<longleftrightarrow> x = y"
proof (induction x arbitrary: y)
  case Nil
  then show ?case by (cases y) auto
next
  case (Cons a x)
  then show ?case by (cases y) auto
qed

lemma brace_notin_name: "list_all word_char y \<Longrightarrow> CHR ''{'' \<notin> set y"
  by (induction y) auto

lemma replace_ph:
  assumes "list_all word_char x" "list_all word_char y"
  shows "str_replace (placeholder x) new (placeholder y @ rest) =
    (if x = y then new else placeholder y) @ str_replace (placeholder x) new rest"
proof (cases "x = y")
  case True
  then show ?thesis by (simp add: placeholder_def)
next
  case False
  have np: "\<not> prefix (placeholder x) (placeholder y @ rest)"
    using False prefix_placeholder [OF assms, of rest] by (simp add: placeholder_def)
  have "lit_ok (CHR ''@'' # y @ ''}'')"
    by (rule lit_ok_no_brace) (use brace_notin_name [OF assms(2)] in auto)
  then have "str_replace (placeholder x) new ((CHR ''@'' # y @ ''}'') @ rest) =
      (CHR ''@'' # y @ ''}'') @ str_replace (placeholder x) new rest"
    by (rule replace_skip)
  with np False show ?thesis by (simp add: placeholder_def)
qed

lemma replace_render:
  assumes "list_all word_char x" "list_all wf_tok toks"
  shows "str_replace (placeholder x) new (render toks) =
     render (map (\<lambda>t. case t of Lit s \<Rightarrow> Lit s | Ph y \<Rightarrow> if y = x then Lit new else Ph y) toks)"
  using assms(2)
proof (induction toks)
  case Nil
  then show ?case by (simp add: render_def placeholder_def)
next
  case (Cons t ts)
  show ?case
  proof (cases t)
    case (Lit s)
    with Cons have "lit_ok s" by simp
    then have "str_replace (placeholder x) new (s @ render ts) =
        s @ str_replace (placeholder x) new (render ts)"
      by (rule replace_skip)
    with Cons Lit show ?thesis by (simp add: render_def)
  next
    case (Ph y)
    with Cons have "list_all word_char y" by simp
    from replace_ph [OF assms(1) this, of new "render ts"] Cons Ph
    show ?thesis by (auto simp add: render_def)
  qed
qed

lemma wf_step:
  "list_all wf_tok toks \<Longrightarrow> lit_ok new \<Longrightarrow>
   list_all wf_tok
     (map (\<lambda>t. case t of Lit s \<Rightarrow> Lit s | Ph y \<Rightarrow> if y = x then Lit new else Ph y) toks)"
  by (induction toks) (auto split: tok.splits)

lemma resolve_step:
  "map (resolve_tok row_data names)
     (map (\<lambda>t. case t of Lit s \<Rightarrow> Lit s
                | Ph y \<Rightarrow> if y = x then Lit (lookup_text row_data x) else Ph y) toks)
   = map (resolve_tok row_data (x # names)) toks"
  by (induction toks) (auto split: tok.splits)

lemma resolve_none: "map (resolve_tok row_data []) toks = toks"
proof (induction toks)
  case Nil
  show ?case by simp
next
  case (Cons t ts)
  then show ?case by (cases t) simp_all
qed

lemma replace_loop_render:
  "list_all wf_tok toks \<Longrightarrow> list_all (list_all word_char) names \<Longrightarrow>
   list_all (\<lambda>x. lit_ok (lookup_text row_data x)) names \<Longrightarrow>
   replace_loop row_data names (render toks) = render (map (resolve_tok row_data names) toks)"
proof (induction names arbitrary: toks)
  case Nil
  show ?case by (simp add: resolve_none)
next
  case (Cons x names)
  let ?new = "lookup_text row_data x"
  let ?toks = "map (\<lambda>t. case t of Lit s \<Rightarrow> Lit s
                        | Ph y \<Rightarrow> if y = x then Lit ?new else Ph y) toks"
  from Cons.prems have wx: "list_all word_char x" and nb: "lit_ok ?new"
    by simp_all
  have wf': "list_all wf_tok ?toks"
    using Cons.prems(1) nb by (rule wf_step)
  have "replace_loop row_data (x # names) (render toks) =
      replace_loop row_data names (render ?toks)"
    using replace_render [OF wx Cons.prems(1), of ?new] by (simp add: lookup_text_def)
  also have "\<dots> = render (map (resolve_tok row_data names) ?toks)"
    using Cons.prems by (intro Cons.IH wf') simp_all
  also have "\<dots> = render (map (resolve_tok row_data (x # names)) toks)"
    by (simp only: resolve_step)
  finally show ?case .
qed

lemma names_wf: "list_all wf_tok toks \<Longrightarrow> list_all (list_all word_char) (ph_names toks)"
  by (induction toks rule: ph_names.induct) auto

lemma render_resolved:
  "set (ph_names toks) \<subseteq> set names \<Longrightarrow>
   render (map (resolve_tok row_data names) toks) = concat (map (subst_tok row_data) toks)"
  by (induction toks rule: ph_names.induct) (auto simp: render_def)

lemma lit_ok_subst:
  "list_all wf_tok toks \<Longrightarrow>
   list_all (\<lambda>x. lit_ok (lookup_text row_data x)) (ph_names toks) \<Longrightarrow>
   lit_ok (concat (map (subst_tok row_data) toks))"
  by (induction toks rule: ph_names.induct) (auto intro: lit_ok_append)

lemma single_pass_tokens:
  assumes "list_all wf_tok toks"
    and "list_all (\<lambda>x. lit_ok (lookup_text row_data x)) (ph_names toks)"
  shows "replace_placeholders (render toks) row_data = concat (map (subst_tok row_data) toks)"
proof -
  have "replace_placeholders (render toks) row_data =
      replace_loop row_data (ph_names toks) (render toks)"
    using assms(1) by (simp add: replace_placeholders_def findall_render)
  also have "\<dots> = render (map (resolve_tok row_data (ph_names toks)) toks)"
    using assms by (intro replace_loop_render names_wf)
  also have "\<dots> = concat (map (subst_tok row_data) toks)"
    by (rule render_resolved) simp
  finally show ?thesis .
qed

text \<open>
  C1, amended. Take a template made of literal text and placeholders in which \<open>{@\<close>
  occurs only where a placeholder starts and no literal piece ends with \<open>{\<close>, and a row
  whose substituted texts do not contain \<open>{@\<close> and do not end with \<open>{\<close>. Then
  \<open>replace_placeholders\<close> returns the literal single-pass substitution: every placeholder
  \<open>{@X}\<close> with \<open>X\<close> a key of the row is replaced by the string form of \<open>row[X]\<close>, every
  placeholder with \<open>X\<close> absent by the empty string, and the result contains no placeholder
  \<open>{@X}\<close> for any name \<open>X\<close>.
\<close>

theorem replace_placeholders_single_pass:
  assumes "list_all wf_tok toks"
    and "list_all (\<lambda>x. lit_ok (lookup_text row_data x)) (ph_names toks)"
  shows "replace_placeholders (render toks) row_data = concat (map (subst_tok row_data) toks)
    \<and> (\<forall>X. \<not> sublist (placeholder X) (replace_placeholders (render toks) row_data))"
proof -
  have "lit_ok (concat (map (subst_tok row_data) toks))"
    using assms by (rule lit_ok_subst)
  then show ?thesis
    using single_pass_tokens [OF assms] lit_ok_no_placeholder by simp
qed

theorem replace_placeholders_single_pass_witness:
  "list_all wf_tok [Lit ''{r: '', Ph ''CustomerReview'', Lit ''} n='', Ph ''Count'',
                    Lit ''/'', Ph ''Missing'']
   \<and> replace_placeholders ''{r: {@CustomerReview}} n={@Count}/{@Missing}''
        [(''CustomerReview'', PStr ''Great {product}''), (''Count'', PInt 12)]
      = ''{r: Great {product}} n=12/''
   \<and> \<not> sublist (placeholder ''Count'')
        (replace_placeholders ''{r: {@CustomerReview}} n={@Count}/{@Missing}''
           [(''CustomerReview'', PStr ''Great {product}''), (''Count'', PInt 12)])"
proof -
  let ?toks = "[Lit ''{r: '', Ph ''CustomerReview'', Lit ''} n='', Ph ''Count'',
                Lit ''/'', Ph ''Missing'']"
  let ?row = "[(''CustomerReview'', PStr ''Great {product}''), (''Count'', PInt 12)]"
  have wf: "list_all wf_tok ?toks"
    by (simp add: word_char_def)
  have vals: "list_all (\<lambda>x. lit_ok (lookup_text ?row x)) (ph_names ?toks)"
    by code_simp
  have r: "render ?toks = ''{r: {@CustomerReview}} n={@Count}/{@Missing}''"
    by (simp add: render_def placeholder_def)
  have c: "concat (map (subst_tok ?row) ?toks) = ''{r: Great {product}} n=12/''"
    by code_simp
  show ?thesis
    using replace_placeholders_single_pass [OF wf vals] wf unfolding r c by blast
qed

text \<open>
  C1 as stated fails in its last part: no substitution that leaves inserted values alone
  can remove every placeholder of a column of the row. With the row \<open>{A: "{@A}"}\<close> the
  template \<open>{@A}\<close> renders to the value \<open>{@A}\<close>, a placeholder of the column \<open>A\<close>.
\<close>

theorem replace_placeholders_counterexample:
  "sublist (placeholder ''A'') (replace_placeholders ''{@A}'' [(''A'', PStr ''{@A}'')])
   \<and> map_of [(''A'', PStr ''{@A}'')] ''A'' = Some (PStr ''{@A}'')"
proof -
  have "replace_placeholders ''{@A}'' [(''A'', PStr ''{@A}'')] = placeholder ''A''"
    by code_simp
  then show ?thesis by simp
qed

section \<open>Properties of the model client adapter and the pipeline\<close>

text \<open>
  C10. Without an API credential (the environment variable unset or empty;
  \<open>process_dataframe\<close> passes no key of its own) the construction of the service fails,
  \<open>process_dataframe\<close> absorbs the failure and returns the input table as it is: no request
  is made and the session state is untouched.
\<close>

theorem no_credential_returns_input:
  assumes "getenv_api_key e = None \<or> getenv_api_key e = Some []"
  shows "process_dataframe e sess calls df steps preview_only = (Inr df, sess, calls)"
  using assms by (auto simp: process_dataframe_def new_service_def)

theorem no_credential_returns_input_witness:
  "getenv_api_key ((scripted [sentiment_reply])\<lparr>getenv_api_key := None\<rparr>) = None
   \<and> process_dataframe ((scripted [sentiment_reply])\<lparr>getenv_api_key := None\<rparr>)
         session0 [] review_table [sentiment_step] False
       = (Inr review_table, session0, [])"
  using no_credential_returns_input
    [of "(scripted [sentiment_reply])\<lparr>getenv_api_key := None\<rparr>" session0 "[]" review_table
        "[sentiment_step]" False]
  by simp




text \<open>
  C2, at the input where the code departs from it: a preview run on an empty table. The
  loop runs over \<open>range(1)\<close> whatever the number of rows, so \<open>iloc[0]\<close> raises \<open>IndexError\<close>
  instead of the run returning the empty table with a zero summary.
\<close>

theorem preview_empty_table_raises:
  "process_dataframe (scripted [sentiment_reply]) session0 []
     \<lparr>columns = [''CustomerReview''], rows = []\<rparr> [sentiment_step] True
   = (Inl IndexError, session0, [])"
  by (simp add: process_dataframe_def new_service_def scripted_def iloc_to_dict_def)

lemma process_steps_skip:
  "skipped s \<Longrightarrow> process_steps e (pre @ s # post) row_idx st calls =
     process_steps e (pre @ post) row_idx st calls"
proof (induction pre arbitrary: st calls)
  case Nil
  then show ?case by (cases st) simp
next
  case (Cons a pre)
  obtain result_df row_data tp tc where st: "st = (result_df, row_data, tp, tc)"
    by (cases st) auto
  show ?case
    unfolding st using Cons
    by (simp split: prod.splits sum.splits parsed.splits add: Let_def)
qed

lemma process_rows_skip:
  "skipped s \<Longrightarrow> process_rows e (pre @ s # post) idxs st calls =
     process_rows e (pre @ post) idxs st calls"
proof (induction idxs arbitrary: st calls)
  case Nil
  then show ?case by simp
next
  case (Cons i idxs)
  obtain result_df tp tc where st: "st = (result_df, tp, tc)"
    by (cases st) auto
  show ?case
    unfolding st using Cons
    by (simp add: process_steps_skip split: prod.splits sum.splits)
qed

text \<open>
  C4. A step whose prompt is empty or whose output-fields text is empty is skipped at
  every row without raising: run alone it returns the state it was given (table,
  \<open>row_data\<close>, both token totals) and the list of requests unchanged, and a run whose step
  list contains it gives the same table, token totals, requests and outcome as the run
  without it.
\<close>

theorem skipped_step_is_noop:
  assumes "step_prompt s = [] \<or> step_output_fields s = []"
  shows "process_steps e [s] row_idx st calls = (Inr st, calls)
    \<and> process_steps e (pre @ s # post) row_idx st calls =
        process_steps e (pre @ post) row_idx st calls
    \<and> process_rows e (pre @ s # post) idxs (df, tp, tc) calls =
        process_rows e (pre @ post) idxs (df, tp, tc) calls"
proof -
  from assms have sk: "skipped s" by (simp add: skipped_def)
  have "process_steps e [s] row_idx st calls = (Inr st, calls)"
    using sk by (cases st) simp
  with sk show ?thesis
    by (simp add: process_steps_skip process_rows_skip)
qed

theorem skipped_step_is_noop_witness:
  "step_output_fields (sentiment_step\<lparr>step_output_fields := []\<rparr>) = []
   \<and> process_rows (scripted [score_reply, score_reply])
        [sentiment_step\<lparr>step_output_fields := []\<rparr>, score_step] [0, 1] (review_table, 0, 0) []
     = process_rows (scripted [score_reply, score_reply]) [score_step] [0, 1] (review_table, 0, 0) []
   \<and> process_steps (scripted []) [sentiment_step\<lparr>step_output_fields := []\<rparr>] 0
        (review_table, rows review_table ! 0, 0, 0) []
     = (Inr (review_table, rows review_table ! 0, 0, 0), [])"
  using skipped_step_is_noop
    [of "sentiment_step\<lparr>step_output_fields := []\<rparr>" "scripted []" 0
        "(review_table, rows review_table ! 0, 0, 0)" "[]" "[]" "[]"]
    skipped_step_is_noop
    [of "sentiment_step\<lparr>step_output_fields := []\<rparr>" "scripted [score_reply, score_reply]" 0
        "(review_table, rows review_table ! 0, 0, 0)" "[]" "[]" "[score_step]" "[0, 1]" review_table 0 0]
  by simp

section \<open>Properties of the cost estimate\<close>

text \<open>Rewrite rules that evaluate the rounding on numerals.\<close>

lemma ilog2_numeral:
  "ilog2 (numeral k) = (if (numeral k :: int) < 2 then 0 else 1 + ilog2 (numeral k div 2))"
  by (subst ilog2.simps) simp

lemma ilog2_small: "ilog2 0 = 0" "ilog2 1 = 0"
  by (simp_all add: ilog2.simps)

lemma floor_numeral_div: "\<lfloor>(numeral a :: rat) / numeral b\<rfloor> = numeral a div numeral b"
  by (metis floor_divide_of_int_eq of_int_numeral)

lemma ceiling_numeral_div:
  "\<lceil>(numeral a :: rat) / numeral b\<rceil> = - ((- numeral a) div numeral b)"
proof -
  have "\<lfloor>rat_of_int (- numeral a) / rat_of_int (numeral b)\<rfloor> = (- numeral a) div numeral b"
    by (rule floor_divide_of_int_eq)
  then show ?thesis
    by (simp add: ceiling_def)
qed

lemmas float_eval = round_binary64_def floor_log2_def round_half_even_def pow2_def
  ilog2_numeral ilog2_small Let_def floor_numeral_div ceiling_numeral_div

text \<open>The rates as binary64 numbers, and the fallback for an unknown model.\<close>

lemma rates_mini: "model_pricing ''gpt-4o-mini'' =
    (Finite (5534023222112865 / 36893488147419103232), Finite (5534023222112865 / 9223372036854775808))"
  by (simp add: model_pricing_def pricing_def float_eval)

lemma rates_4o: "model_pricing ''gpt-4o'' =
    (Finite (5764607523034235 / 2305843009213693952), Finite (5764607523034235 / 576460752303423488))"
  by (simp add: model_pricing_def pricing_def float_eval)

lemma model_pricing_unknown:
  "model \<notin> {''gpt-4o-mini'', ''gpt-4o'', ''gpt-4-turbo''} \<Longrightarrow>
   model_pricing model = model_pricing ''gpt-4o-mini''"
  by (simp add: model_pricing_def pricing_def)

lemma div_1000: "int_truediv 1000 1000 = Inr (Finite 1)"
  by (simp add: int_truediv_def float_eval)

lemma div_1040: "int_truediv 1040 1000 = Inr (Finite (1170935903116329 / 1125899906842624))"
  by (simp add: int_truediv_def float_eval)

lemma div_1008: "int_truediv 1008 1000 = Inr (Finite (1134907106097365 / 1125899906842624))"
  by (simp add: int_truediv_def float_eval)

lemma mul_in_1000_1000_mini: "float_mul (Finite 1) (Finite (5534023222112865 / 36893488147419103232))
    = Finite (5534023222112865 / 36893488147419103232)"
  by (simp add: float_eval)

lemma mul_out_1000_1000_mini: "float_mul (Finite 1) (Finite (5534023222112865 / 9223372036854775808))
    = Finite (5534023222112865 / 9223372036854775808)"
  by (simp add: float_eval)

lemma add_1000_1000_mini: "float_add (Finite (5534023222112865 / 36893488147419103232)) (Finite (5534023222112865 / 9223372036854775808))
    = Finite (6917529027641081 / 9223372036854775808)"
  by (simp add: float_eval)

lemma cost_1000_1000_mini:
  "estimate_cost 1000 1000 ''gpt-4o-mini'' = Inr (Finite (6917529027641081 / 9223372036854775808))"
  unfolding estimate_cost_def div_1000 rates_mini
  by (simp only: sum.case Let_def fst_conv snd_conv mul_in_1000_1000_mini mul_out_1000_1000_mini add_1000_1000_mini)

lemma mul_in_1040_1008_mini: "float_mul (Finite (1170935903116329 / 1125899906842624)) (Finite (5534023222112865 / 36893488147419103232))
    = Finite (1438846037749345 / 9223372036854775808)"
  by (simp add: float_eval)

lemma mul_out_1040_1008_mini: "float_mul (Finite (1134907106097365 / 1125899906842624)) (Finite (5534023222112865 / 9223372036854775808))
    = Finite (697286925986221 / 1152921504606846976)"
  by (simp add: float_eval)

lemma add_1040_1008_mini: "float_add (Finite (1438846037749345 / 9223372036854775808)) (Finite (697286925986221 / 1152921504606846976))
    = Finite (7017141445639113 / 9223372036854775808)"
  by (simp add: float_eval)

lemma cost_1040_1008_mini:
  "estimate_cost 1040 1008 ''gpt-4o-mini'' = Inr (Finite (7017141445639113 / 9223372036854775808))"
  unfolding estimate_cost_def div_1008 div_1040 rates_mini
  by (simp only: sum.case Let_def fst_conv snd_conv mul_in_1040_1008_mini mul_out_1040_1008_mini add_1040_1008_mini)

lemma mul_in_1040_1008_4o: "float_mul (Finite (1170935903116329 / 1125899906842624)) (Finite (5764607523034235 / 2305843009213693952))
    = Finite (5995191823955605 / 2305843009213693952)"
  by (simp add: float_eval)

lemma mul_out_1040_1008_4o: "float_mul (Finite (1134907106097365 / 1125899906842624)) (Finite (5764607523034235 / 576460752303423488))
    = Finite (5810724383218509 / 576460752303423488)"
  by (simp add: float_eval)

lemma add_1040_1008_4o: "float_add (Finite (5995191823955605 / 2305843009213693952)) (Finite (5810724383218509 / 576460752303423488))
    = Finite (3654761169603705 / 288230376151711744)"
  by (simp add: float_eval)

lemma cost_1040_1008_4o:
  "estimate_cost 1040 1008 ''gpt-4o'' = Inr (Finite (3654761169603705 / 288230376151711744))"
  unfolding estimate_cost_def div_1008 div_1040 rates_4o
  by (simp only: sum.case Let_def fst_conv snd_conv mul_in_1040_1008_4o mul_out_1040_1008_4o add_1040_1008_4o)

lemma literal_00075: "round_binary64 (75 / 100000) = Finite (3458764513820541 / 4611686018427387904)"
  by (simp add: float_eval)

text \<open>
  C8, amended. \<open>estimate_cost(p, c, m)\<close> is the binary64 evaluation of
  \<open>(p / 1000) * input_rate(m) + (c / 1000) * output_rate(m)\<close>: each quotient, each product
  and the sum is rounded to the nearest double (the quotients exist unless a count is too
  large for a float). An identifier that is not in the pricing table uses the
  \<open>gpt-4o-mini\<close> rates and so yields the same value for the same counts. In particular
  \<open>estimate_cost(1000, 1000, "gpt-4o-mini")\<close> is the double \<open>6917529027641081 / 2^63\<close>, which
  Python prints as \<open>0.0007499999999999999\<close>.
\<close>

theorem estimate_cost_binary64:
  assumes "int_truediv p 1000 = Inr pf"
    and "int_truediv c 1000 = Inr cf"
  shows "estimate_cost p c model =
      Inr (float_add (float_mul pf (fst (model_pricing model)))
                     (float_mul cf (snd (model_pricing model))))
    \<and> (model \<notin> {''gpt-4o-mini'', ''gpt-4o'', ''gpt-4-turbo''} \<longrightarrow>
         estimate_cost p c model = estimate_cost p c ''gpt-4o-mini'')
    \<and> estimate_cost 1000 1000 ''gpt-4o-mini'' =
         Inr (Finite (6917529027641081 / 9223372036854775808))"
proof -
  have "estimate_cost p c model =
      Inr (float_add (float_mul pf (fst (model_pricing model)))
                     (float_mul cf (snd (model_pricing model))))"
    using assms by (simp add: estimate_cost_def Let_def)
  moreover have "estimate_cost p c model = estimate_cost p c ''gpt-4o-mini''"
    if "model \<notin> {''gpt-4o-mini'', ''gpt-4o'', ''gpt-4-turbo''}"
    by (simp only: estimate_cost_def model_pricing_unknown [OF that])
  ultimately show ?thesis
    using cost_1000_1000_mini by blast
qed

theorem estimate_cost_binary64_witness:
  "int_truediv 1040 1000 = Inr (Finite (1170935903116329 / 1125899906842624))
   \<and> int_truediv 1008 1000 = Inr (Finite (1134907106097365 / 1125899906842624))
   \<and> estimate_cost 1040 1008 ''my-model'' = estimate_cost 1040 1008 ''gpt-4o-mini''
   \<and> estimate_cost 1040 1008 ''my-model'' =
        Inr (Finite (7017141445639113 / 9223372036854775808))"
proof -
  have "''my-model'' \<notin> {''gpt-4o-mini'', ''gpt-4o'', ''gpt-4-turbo''}"
    by simp
  with estimate_cost_binary64 [OF div_1040 div_1008, of "''my-model''"]
  have "estimate_cost 1040 1008 ''my-model'' = estimate_cost 1040 1008 ''gpt-4o-mini''"
    by blast
  then show ?thesis
    using div_1040 div_1008 cost_1040_1008_mini by simp
qed

text \<open>
  C8 as stated fails at its own example: in binary64 arithmetic
  \<open>estimate_cost(1000, 1000, "gpt-4o-mini")\<close> is neither the double that the literal
  \<open>0.00075\<close> denotes nor the number \<open>0.00075\<close> itself.
\<close>

theorem estimate_cost_exact_counterexample:
  "estimate_cost 1000 1000 ''gpt-4o-mini'' \<noteq> Inr (round_binary64 (75 / 100000))
   \<and> estimate_cost 1000 1000 ''gpt-4o-mini'' \<noteq> Inr (Finite (75 / 100000))"
  unfolding cost_1000_1000_mini literal_00075 by simp

lemma process_dataframe_returns:
  assumes "new_service e None = Inr key"
    and "process_rows e steps [0..<(if preview_only then 1 else length (rows df))] (df, 0, 0) calls
           = (Inr (result_df, tp, tc), calls')"
    and "estimate_cost tp tc (if steps \<noteq> [] then step_model (hd steps) else ''gpt-4o-mini'')
           = Inr cost"
  shows "process_dataframe e sess calls df steps preview_only =
    (Inr result_df, sess\<lparr>session_total_tokens := (tp, tc), session_estimated_cost := cost\<rparr>, calls')"
  using assms by (simp add: process_dataframe_def)

lemma scripted_service: "new_service (scripted outcomes) None = Inr ''sk-test''"
  by (simp add: new_service_def scripted_def)

lemma two_step_rows:
  "process_rows (scripted [sentiment_reply, score_reply]) [sentiment_step, score_step]
     [0..<(if True then 1 else length (rows review_table))] (review_table, 0, 0) []
   = (Inr (\<lparr>columns = [''CustomerReview'', ''AI_sentiment'', ''AI_score''],
            rows = [[(''CustomerReview'', PStr ''Great product''),
                     (''AI_sentiment'', PStr ''positive''), (''AI_score'', PStr ''7'')],
                    [(''CustomerReview'', PStr ''Bad''),
                     (''AI_sentiment'', nan), (''AI_score'', nan)]]\<rparr>, 1040, 1008),
      [build_request ''Analyze: Great product'' [''sentiment''] ''gpt-4o-mini'',
       build_request ''Rate positive'' [''score''] ''gpt-4o''])"
  by code_simp

lemma two_step_run:
  "process_dataframe (scripted [sentiment_reply, score_reply]) session0 [] review_table
     [sentiment_step, score_step] True
   = (Inr \<lparr>columns = [''CustomerReview'', ''AI_sentiment'', ''AI_score''],
           rows = [[(''CustomerReview'', PStr ''Great product''),
                    (''AI_sentiment'', PStr ''positive''), (''AI_score'', PStr ''7'')],
                   [(''CustomerReview'', PStr ''Bad''),
                    (''AI_sentiment'', nan), (''AI_score'', nan)]]\<rparr>,
      \<lparr>session_total_tokens = (1040, 1008),
       session_estimated_cost = Finite (7017141445639113 / 9223372036854775808)\<rparr>,
      [build_request ''Analyze: Great product'' [''sentiment''] ''gpt-4o-mini'',
       build_request ''Rate positive'' [''score''] ''gpt-4o''])"
proof -
  have c: "estimate_cost 1040 1008
      (if [sentiment_step, score_step] \<noteq> [] then step_model (hd [sentiment_step, score_step])
       else ''gpt-4o-mini'')
    = Inr (Finite (7017141445639113 / 9223372036854775808))"
    using cost_1040_1008_mini by (simp add: sentiment_step_def)
  show ?thesis
    using process_dataframe_returns [OF scripted_service two_step_rows c, of session0]
    by (simp add: session0_def)
qed

text \<open>
  C7, amended. For every run with at least one configured step that returns (a credential
  being present), \<open>estimated_cost\<close> is \<open>estimate_cost\<close> of the aggregated token totals of the
  run at the model identifier of the first configured step.
\<close>

theorem estimated_cost_uses_first_step:
  assumes "new_service e None = Inr key"
    and "steps \<noteq> []"
    and "process_dataframe e sess calls df steps preview_only = (Inr result_df, sess', calls')"
  shows "\<exists>tp tc. process_rows e steps [0..<(if preview_only then 1 else length (rows df))]
                     (df, 0, 0) calls = (Inr (result_df, tp, tc), calls')
    \<and> session_total_tokens sess' = (tp, tc)
    \<and> estimate_cost tp tc (step_model (hd steps)) = Inr (session_estimated_cost sess')"
  using assms
  by (auto simp: process_dataframe_def Let_def split: prod.splits sum.splits if_splits)

theorem estimated_cost_uses_first_step_witness:
  "new_service (scripted [sentiment_reply, score_reply]) None = Inr ''sk-test''
   \<and> [sentiment_step, score_step] \<noteq> []
   \<and> estimate_cost 1040 1008 (step_model (hd [sentiment_step, score_step]))
       = Inr (session_estimated_cost (fst (snd
           (process_dataframe (scripted [sentiment_reply, score_reply]) session0 []
              review_table [sentiment_step, score_step] True))))"
proof -
  have ne: "[sentiment_step, score_step] \<noteq> []" by simp
  from estimated_cost_uses_first_step [OF scripted_service ne two_step_run]
  obtain tp tc where "(1040, 1008) = (tp, tc)"
    and "estimate_cost tp tc (step_model (hd [sentiment_step, score_step]))
       = Inr (Finite (7017141445639113 / 9223372036854775808))"
    by auto
  then show ?thesis
    using scripted_service two_step_run by simp
qed

text \<open>
  C7 as stated fails: in a preview run of two steps, the first on \<open>gpt-4o-mini\<close> and the
  last on \<open>gpt-4o\<close>, with token totals 1040 and 1008, the estimated cost is the one at the
  rates of the first step, not the one at the rates of the last step.
\<close>

theorem estimated_cost_last_step_counterexample:
  "session_estimated_cost (fst (snd
      (process_dataframe (scripted [sentiment_reply, score_reply]) session0 []
         review_table [sentiment_step, score_step] True)))
     = Finite (7017141445639113 / 9223372036854775808)
   \<and> session_total_tokens (fst (snd
      (process_dataframe (scripted [sentiment_reply, score_reply]) session0 []
         review_table [sentiment_step, score_step] True))) = (1040, 1008)
   \<and> estimate_cost 1040 1008 (step_model (last [sentiment_step, score_step]))
     = Inr (Finite (3654761169603705 / 288230376151711744))
   \<and> Finite (3654761169603705 / 288230376151711744)
     \<noteq> Finite (7017141445639113 / 9223372036854775808)"
  using two_step_run cost_1040_1008_4o by (simp add: score_step_def)

section \<open>Error propagation, frame and chaining\<close>

lemma process_steps_append:
  "process_steps e (pre @ post) row_idx st calls =
     (case process_steps e pre row_idx st calls of
        (Inl err, calls') \<Rightarrow> (Inl err, calls')
      | (Inr st', calls') \<Rightarrow> process_steps e post row_idx st' calls')"
proof (induction pre arbitrary: st calls)
  case Nil
  show ?case by simp
next
  case (Cons a pre)
  obtain result_df row_data tp tc where st: "st = (result_df, row_data, tp, tc)"
    by (cases st) auto
  show ?case
    unfolding st using Cons
    by (simp split: prod.splits sum.splits parsed.splits add: Let_def)
qed

lemma process_rows_append:
  "process_rows e steps (idxs @ idxs') st calls =
     (case process_rows e steps idxs st calls of
        (Inl err, calls') \<Rightarrow> (Inl err, calls')
      | (Inr st', calls') \<Rightarrow> process_rows e steps idxs' st' calls')"
proof (induction idxs arbitrary: st calls)
  case Nil
  show ?case by simp
next
  case (Cons i idxs)
  obtain result_df tp tc where st: "st = (result_df, tp, tc)"
    by (cases st) auto
  show ?case
    unfolding st using Cons
    by (simp split: prod.splits sum.splits)
qed

lemma process_steps_call_fails:
  assumes "\<not> skipped s"
    and "create e calls (build_request (replace_placeholders (step_prompt s) row_data)
           (map py_strip (py_split CHR '','' (step_output_fields s))) (step_model s)) = Inl err"
  shows "process_steps e (s # post) row_idx (result_df, row_data, tp, tc) calls =
    (Inl err, calls @ [build_request (replace_placeholders (step_prompt s) row_data)
           (map py_strip (py_split CHR '','' (step_output_fields s))) (step_model s)])"
  using assms by (simp add: process_item_def Let_def)

lemma failed_call_aborts:
  assumes cred: "new_service e None = Inr key"
    and idxs: "[0..<(if preview_only then 1 else length (rows df))] = before @ row_idx # todo"
    and rows_before: "process_rows e steps before (df, 0, 0) calls = (Inr (df1, tp1, tc1), calls1)"
    and row: "iloc_to_dict df1 row_idx = Inr row_data"
    and steps: "steps = pre @ s # post"
    and steps_before: "process_steps e pre row_idx (df1, row_data, tp1, tc1) calls1
                        = (Inr (df2, row_data2, tp2, tc2), calls2)"
    and ns: "\<not> skipped s"
    and fail: "create e calls2 (build_request (replace_placeholders (step_prompt s) row_data2)
           (map py_strip (py_split CHR '','' (step_output_fields s))) (step_model s)) = Inl err"
  shows "process_dataframe e sess calls df steps preview_only =
    (Inl err, sess,
     calls2 @ [build_request (replace_placeholders (step_prompt s) row_data2)
           (map py_strip (py_split CHR '','' (step_output_fields s))) (step_model s)])"
proof -
  let ?req = "build_request (replace_placeholders (step_prompt s) row_data2)
           (map py_strip (py_split CHR '','' (step_output_fields s))) (step_model s)"
  have "process_steps e (s # post) row_idx (df2, row_data2, tp2, tc2) calls2
      = (Inl err, calls2 @ [?req])"
    using ns fail by (rule process_steps_call_fails)
  then have "process_steps e steps row_idx (df1, row_data, tp1, tc1) calls1
      = (Inl err, calls2 @ [?req])"
    unfolding steps by (simp add: process_steps_append steps_before)
  then have "process_rows e steps (row_idx # todo) (df1, tp1, tc1) calls1
      = (Inl err, calls2 @ [?req])"
    using row by simp
  then have "process_rows e steps (before @ row_idx # todo) (df, 0, 0) calls
      = (Inl err, calls2 @ [?req])"
    by (simp add: process_rows_append rows_before)
  then show ?thesis
    using cred idxs by (simp add: process_dataframe_def)
qed

lemma failing_run_first_row:
  "process_rows (scripted [sentiment_reply]) [sentiment_step] [0] (review_table, 0, 0) []
   = (Inr (\<lparr>columns = [''CustomerReview'', ''AI_sentiment''],
            rows = [[(''CustomerReview'', PStr ''Great product''),
                     (''AI_sentiment'', PStr ''positive'')],
                    [(''CustomerReview'', PStr ''Bad''), (''AI_sentiment'', nan)]]\<rparr>,
           1000, 1000),
      [build_request ''Analyze: Great product'' [''sentiment''] ''gpt-4o-mini''])"
  by code_simp

lemma failing_run:
  "process_dataframe (scripted [sentiment_reply]) session0 [] review_table [sentiment_step] False
   = (Inl (APIError ''connection error''), session0,
      [build_request ''Analyze: Great product'' [''sentiment''] ''gpt-4o-mini'',
       build_request ''Analyze: Bad'' [''sentiment''] ''gpt-4o-mini''])"
  by code_simp

text \<open>
  C5, amended. If a model call fails partway through a run - the rows before it and the
  steps before it in its row having been processed - the exception of the call propagates
  out of \<open>process_dataframe\<close>: the failing request is the last one made, the caller
  receives the exception and no table, and the token totals and the estimated cost of the
  session stay as they were before the run.
\<close>

theorem model_call_failure_propagates:
  assumes "new_service e None = Inr key"
    and "[0..<(if preview_only then 1 else length (rows df))] = before @ row_idx # todo"
    and "process_rows e steps before (df, 0, 0) calls = (Inr (df1, tp1, tc1), calls1)"
    and "iloc_to_dict df1 row_idx = Inr row_data"
    and "steps = pre @ s # post"
    and "process_steps e pre row_idx (df1, row_data, tp1, tc1) calls1
           = (Inr (df2, row_data2, tp2, tc2), calls2)"
    and "\<not> skipped s"
    and "create e calls2 (build_request (replace_placeholders (step_prompt s) row_data2)
           (map py_strip (py_split CHR '','' (step_output_fields s))) (step_model s)) = Inl err"
  shows "process_dataframe e sess calls df steps preview_only =
    (Inl err, sess,
     calls2 @ [build_request (replace_placeholders (step_prompt s) row_data2)
           (map py_strip (py_split CHR '','' (step_output_fields s))) (step_model s)])"
  using assms by (rule failed_call_aborts)

theorem model_call_failure_propagates_witness:
  "new_service (scripted [sentiment_reply]) None = Inr ''sk-test''
   \<and> [0..<(if False then 1 else length (rows review_table))] = [0] @ 1 # []
   \<and> \<not> skipped sentiment_step
   \<and> create (scripted [sentiment_reply])
        [build_request ''Analyze: Great product'' [''sentiment''] ''gpt-4o-mini'']
        (build_request ''Analyze: Bad'' [''sentiment''] ''gpt-4o-mini'')
       = Inl (APIError ''connection error'')
   \<and> process_dataframe (scripted [sentiment_reply]) session0 [] review_table [sentiment_step] False
       = (Inl (APIError ''connection error''), session0,
          [build_request ''Analyze: Great product'' [''sentiment''] ''gpt-4o-mini'',
           build_request ''Analyze: Bad'' [''sentiment''] ''gpt-4o-mini''])"
proof -
  let ?e = "scripted [sentiment_reply]"
  let ?df1 = "\<lparr>columns = [''CustomerReview'', ''AI_sentiment''],
            rows = [[(''CustomerReview'', PStr ''Great product''),
                     (''AI_sentiment'', PStr ''positive'')],
                    [(''CustomerReview'', PStr ''Bad''), (''AI_sentiment'', nan)]]\<rparr>"
  let ?row = "[(''CustomerReview'', PStr ''Bad''), (''AI_sentiment'', nan)]"
  let ?c1 = "[build_request ''Analyze: Great product'' [''sentiment''] ''gpt-4o-mini'']"
  have a1: "new_service ?e None = Inr ''sk-test''"
    by (simp add: new_service_def scripted_def)
  have a2: "[0..<(if False then 1 else length (rows review_table))] = [0] @ 1 # []"
    by code_simp
  have a4: "iloc_to_dict ?df1 1 = Inr ?row"
    by (simp add: iloc_to_dict_def)
  have a5: "[sentiment_step] = [] @ sentiment_step # []"
    by simp
  have a6: "process_steps ?e [] 1 (?df1, ?row, 1000, 1000) ?c1 = (Inr (?df1, ?row, 1000, 1000), ?c1)"
    by simp
  have a7: "\<not> skipped sentiment_step"
    by (simp add: skipped_def sentiment_step_def)
  have p: "replace_placeholders (step_prompt sentiment_step) ?row = ''Analyze: Bad''"
    by code_simp
  have f: "map py_strip (py_split CHR '','' (step_output_fields sentiment_step)) = [''sentiment'']"
    by code_simp
  have m: "step_model sentiment_step = ''gpt-4o-mini''"
    by (simp add: sentiment_step_def)
  have a8: "create ?e ?c1 (build_request (replace_placeholders (step_prompt sentiment_step) ?row)
           (map py_strip (py_split CHR '','' (step_output_fields sentiment_step)))
           (step_model sentiment_step)) = Inl (APIError ''connection error'')"
    by (simp add: scripted_def)
  from model_call_failure_propagates [OF a1 a2 failing_run_first_row a4 a5 a6 a7 a8, of session0]
  show ?thesis
    using a1 a2 a7 a8 unfolding p f m by simp
qed

text \<open>
  C5 as stated fails: the run over two rows whose second call fails has enriched the first
  row and counted 1000 prompt and 1000 completion tokens, yet the caller receives the
  exception alone and the session keeps its old totals.
\<close>

theorem model_call_failure_counterexample:
  "fst (process_rows (scripted [sentiment_reply]) [sentiment_step] [0] (review_table, 0, 0) [])
     = Inr (\<lparr>columns = [''CustomerReview'', ''AI_sentiment''],
            rows = [[(''CustomerReview'', PStr ''Great product''),
                     (''AI_sentiment'', PStr ''positive'')],
                    [(''CustomerReview'', PStr ''Bad''), (''AI_sentiment'', nan)]]\<rparr>,
           1000, 1000)
   \<and> fst (process_dataframe (scripted [sentiment_reply]) session0 [] review_table
            [sentiment_step] False) = Inl (APIError ''connection error'')
   \<and> fst (snd (process_dataframe (scripted [sentiment_reply]) session0 [] review_table
            [sentiment_step] False)) = session0"
  using failing_run_first_row failing_run by simp

lemma same_outside_ai_refl: "same_outside_ai df df"
  by (simp add: same_outside_ai_def)

lemma same_outside_ai_trans:
  "same_outside_ai df df' \<Longrightarrow> same_outside_ai df' df'' \<Longrightarrow> same_outside_ai df df''"
  by (auto simp: same_outside_ai_def)

lemma ai_column_differs: "\<not> prefix ''AI_'' c \<Longrightarrow> c \<noteq> ''AI_'' @ field"
  by auto

lemma at_set_frame: "same_outside_ai df (at_set df i (''AI_'' @ field) v)"
proof (cases "''AI_'' @ field \<in> set (columns df)")
  case True
  have "map_of ((rows df)[i := AList.update (''AI_'' @ field) v (rows df ! i)] ! r) c
      = map_of (rows df ! r) c"
    if "r < length (rows df)" "\<not> prefix ''AI_'' c" for r c
    using that ai_column_differs [of c field]
    by (cases "r = i") (simp_all add: update_conv')
  with True show ?thesis
    by (auto simp: at_set_def same_outside_ai_def)
next
  case False
  have "map_of ((map (AList.update (''AI_'' @ field) nan) (rows df))
            [i := AList.update (''AI_'' @ field) v (rows df ! i)] ! r) c
      = map_of (rows df ! r) c"
    if "r < length (rows df)" "\<not> prefix ''AI_'' c" for r c
    using that ai_column_differs [of c field]
    by (cases "r = i") (simp_all add: update_conv')
  with False show ?thesis
    by (auto simp: at_set_def same_outside_ai_def)
qed

lemma add_ai_columns_frame:
  "add_ai_columns items row_idx df row_data = (df', row_data') \<Longrightarrow> same_outside_ai df df'"
proof (induction items arbitrary: df row_data)
  case Nil
  then show ?case by (simp add: same_outside_ai_refl)
next
  case (Cons item items)
  obtain field v where item: "item = (field, v)"
    by (cases item) auto
  from Cons.prems have "same_outside_ai (at_set df row_idx (''AI_'' @ field) (stored_text v)) df'"
    unfolding item by (auto dest: Cons.IH)
  with at_set_frame show ?case
    by (rule same_outside_ai_trans)
qed

lemma process_steps_frame:
  "process_steps e steps row_idx (df, row_data, tp, tc) calls
     = (Inr (df', row_data', tp', tc'), calls') \<Longrightarrow> same_outside_ai df df'"
proof (induction steps arbitrary: df row_data tp tc calls)
  case Nil
  then show ?case by (simp add: same_outside_ai_refl)
next
  case (Cons s steps)
  show ?case
  proof (cases "skipped s")
    case True
    with Cons show ?thesis by simp
  next
    case False
    with Cons.prems obtain result :: processing_result and calls1 items df1 row1 where
      "response result = PDict items"
      "add_ai_columns items row_idx df row_data = (df1, row1)"
      "process_steps e steps row_idx
         (df1, row1, tp + prompt_tokens result, tc + completion_tokens result) calls1
       = (Inr (df', row_data', tp', tc'), calls')"
      by (auto simp: Let_def split: prod.splits sum.splits parsed.splits)
    then show ?thesis
      using add_ai_columns_frame Cons.IH same_outside_ai_trans by blast
  qed
qed

lemma process_rows_frame:
  "process_rows e steps idxs (df, tp, tc) calls = (Inr (df', tp', tc'), calls')
     \<Longrightarrow> same_outside_ai df df'"
proof (induction idxs arbitrary: df tp tc calls)
  case Nil
  then show ?case by (simp add: same_outside_ai_refl)
next
  case (Cons i idxs)
  from Cons.prems obtain row_data df1 row1 tp1 tc1 calls1 where
    "process_steps e steps i (df, row_data, tp, tc) calls = (Inr (df1, row1, tp1, tc1), calls1)"
    "process_rows e steps idxs (df1, tp1, tc1) calls1 = (Inr (df', tp', tc'), calls')"
    by (auto split: prod.splits sum.splits)
  then show ?case
    using process_steps_frame Cons.IH same_outside_ai_trans by blast
qed

lemma process_dataframe_frame:
  assumes "process_dataframe e sess calls df steps preview_only = (Inr df', sess', calls')"
  shows "same_outside_ai df df'"
proof (cases "new_service e None")
  case (Inl err)
  with assms show ?thesis
    by (simp add: process_dataframe_def same_outside_ai_refl)
next
  case (Inr key)
  with assms obtain tp tc where
    "process_rows e steps [0..<(if preview_only then 1 else length (rows df))] (df, 0, 0) calls
      = (Inr (df', tp, tc), calls')"
    by (auto simp: process_dataframe_def Let_def split: prod.splits sum.splits)
  then show ?thesis
    by (rule process_rows_frame)
qed

text \<open>
  C9, amended. For every run that returns a table, the table has the rows of the input
  table and all of its columns, and every column of the input table whose name does not
  start with \<open>AI_\<close> keeps its original value in every row: the pipeline only appends or
  updates columns named with the \<open>AI_\<close> prefix.
\<close>

theorem original_columns_kept:
  assumes "process_dataframe e sess calls df steps preview_only = (Inr df', sess', calls')"
  shows "length (rows df') = length (rows df)
    \<and> set (columns df) \<subseteq> set (columns df')
    \<and> (\<forall>r c. r < length (rows df) \<and> \<not> prefix ''AI_'' c \<longrightarrow>
          map_of (rows df' ! r) c = map_of (rows df ! r) c)"
  using process_dataframe_frame [OF assms] by (simp add: same_outside_ai_def)

theorem original_columns_kept_witness:
  "map_of (rows \<lparr>columns = [''CustomerReview'', ''AI_sentiment'', ''AI_score''],
           rows = [[(''CustomerReview'', PStr ''Great product''),
                    (''AI_sentiment'', PStr ''positive''), (''AI_score'', PStr ''7'')],
                   [(''CustomerReview'', PStr ''Bad''),
                    (''AI_sentiment'', nan), (''AI_score'', nan)]]\<rparr> ! 1) ''CustomerReview''
     = map_of (rows review_table ! 1) ''CustomerReview''
   \<and> fst (process_dataframe (scripted [sentiment_reply, score_reply]) session0 [] review_table
         [sentiment_step, score_step] True)
     = Inr \<lparr>columns = [''CustomerReview'', ''AI_sentiment'', ''AI_score''],
           rows = [[(''CustomerReview'', PStr ''Great product''),
                    (''AI_sentiment'', PStr ''positive''), (''AI_score'', PStr ''7'')],
                   [(''CustomerReview'', PStr ''Bad''),
                    (''AI_sentiment'', nan), (''AI_score'', nan)]]\<rparr>"
proof -
  have "(1::nat) < length (rows review_table) \<and> \<not> prefix ''AI_'' ''CustomerReview''"
    by (simp add: review_table_def)
  with original_columns_kept [OF two_step_run] two_step_run show ?thesis
    by (metis fst_conv)
qed

lemma overwrite_rows:
  "process_rows (scripted [sentiment_reply]) [sentiment_step]
     [0..<(if False then 1 else length (rows enriched_table))] (enriched_table, 0, 0) []
   = (Inr (\<lparr>columns = [''CustomerReview'', ''AI_sentiment''],
            rows = [[(''CustomerReview'', PStr ''Great product''),
                     (''AI_sentiment'', PStr ''positive'')]]\<rparr>, 1000, 1000),
      [build_request ''Analyze: Great product'' [''sentiment''] ''gpt-4o-mini''])"
  by code_simp

text \<open>
  C9 as stated fails for an input column that itself carries the \<open>AI_\<close> prefix: the table
  with the column \<open>AI_sentiment\<close> holding \<open>old\<close> comes back with \<open>positive\<close> in that cell.
\<close>

theorem original_columns_kept_counterexample:
  "''AI_sentiment'' \<in> set (columns enriched_table)
   \<and> map_of (rows enriched_table ! 0) ''AI_sentiment'' = Some (PStr ''old'')
   \<and> fst (process_dataframe (scripted [sentiment_reply]) session0 [] enriched_table
            [sentiment_step] False)
     = Inr \<lparr>columns = [''CustomerReview'', ''AI_sentiment''],
            rows = [[(''CustomerReview'', PStr ''Great product''),
                     (''AI_sentiment'', PStr ''positive'')]]\<rparr>"
proof -
  have c: "estimate_cost 1000 1000
      (if [sentiment_step] \<noteq> [] then step_model (hd [sentiment_step]) else ''gpt-4o-mini'')
    = Inr (Finite (6917529027641081 / 9223372036854775808))"
    using cost_1000_1000_mini by (simp add: sentiment_step_def)
  show ?thesis
    using process_dataframe_returns [OF scripted_service overwrite_rows c, of session0]
    by (simp add: enriched_table_def)
qed










end
